theory Spec2Isabelle
  imports Main "HOL-Library.Word"
begin

section \<open>The chat route handler: data model\<close>

text \<open>
  The development embeds the chat route (\<^verbatim>\<open>POST\<close>, \<^verbatim>\<open>DELETE\<close>, \<^verbatim>\<open>buildModelMessages\<close>,
  \<^verbatim>\<open>fetchArrayBuffer\<close> and the \<^verbatim>\<open>onFinish\<close> callback). A JavaScript string is a
  \<^typ>\<open>string\<close> whose characters stand for UTF-16 code units, so that \<^verbatim>\<open>substring(0, n)\<close>
  is \<^term>\<open>take n\<close>. Everything outside the route (network, PDF parser, session, database
  failures, environment variables) is an oracle of an environment record; an exception is a
  value of type \<open>exn\<close>, and a function that can throw returns \<open>exn + 'a\<close>.
\<close>

datatype exn =
    ChatSDKError string   \<comment> \<open>the application's typed error, with its error code\<close>
  | Error string          \<comment> \<open>any other \<^verbatim>\<open>Error\<close>\<close>
  | TypeError string      \<comment> \<open>a property read on \<^verbatim>\<open>undefined\<close> or \<^verbatim>\<open>null\<close>\<close>

type_synonym byte = "8 word"

subsection \<open>UI messages and provider messages\<close>

datatype part =
    TextPart string                 \<comment> \<open>\<^verbatim>\<open>{ type: 'text', text }\<close>\<close>
  | FilePart string string          \<comment> \<open>\<^verbatim>\<open>{ type: 'file', url, mediaType }\<close>\<close>
  | OtherPart string                \<comment> \<open>any other part, with its type tag\<close>

record chat_message =
  msg_id :: string
  role :: string
  parts :: "part list"

datatype content_part =
    TextContent string              \<comment> \<open>\<^verbatim>\<open>{ type: 'text', text }\<close>\<close>
  | ImageUrl string                 \<comment> \<open>\<^verbatim>\<open>{ type: 'image_url', image_url: { url } }\<close>\<close>

datatype model_content =
    Flat string                     \<comment> \<open>\<^verbatim>\<open>content\<close> is a string (messages that are not the user's)\<close>
  | Blocks "content_part list"      \<comment> \<open>\<^verbatim>\<open>content\<close> is the array \<^verbatim>\<open>contentParts\<close>\<close>

record model_message =
  m_role :: string
  content :: model_content

subsection \<open>The network and the PDF parser\<close>

datatype fetch_result =
    FetchRejected exn               \<comment> \<open>\<^verbatim>\<open>fetch\<close> rejects\<close>
  | FetchResponse bool "byte list"  \<comment> \<open>\<^verbatim>\<open>res.ok\<close> and the body\<close>

record net =
  fetch :: "string \<Rightarrow> fetch_result"
  pdfParse :: "byte list \<Rightarrow> exn + string option"
    \<comment> \<open>\<^verbatim>\<open>pdf-parse\<close>: throws, or returns \<^verbatim>\<open>res.text\<close> (\<open>None\<close> when it is undefined)\<close>

section \<open>Attachment normalisation\<close>

definition fetchArrayBuffer :: "net \<Rightarrow> string \<Rightarrow> exn + byte list" where
  "fetchArrayBuffer n url =
     (case fetch n url of
        FetchRejected e \<Rightarrow> Inl e
      | FetchResponse ok body \<Rightarrow>
          if \<not> ok then Inl (Error ''Failed to fetch file'') else Inr body)"

text \<open>\<^verbatim>\<open>Buffer.from(arrayBuf).toString('base64')\<close>: the standard alphabet with padding.\<close>

definition b64 :: "nat \<Rightarrow> char" where
  "b64 i = ''ABCDEFGHIJKLMNOPQRSTUVWXYZabcdefghijklmnopqrstuvwxyz0123456789+/'' ! i"

fun base64 :: "byte list \<Rightarrow> string" where
  "base64 [] = []"
| "base64 [a] =
     [b64 (unat a div 4), b64 (unat a mod 4 * 16), CHR ''='', CHR ''='']"
| "base64 [a, b] =
     [b64 (unat a div 4), b64 (unat a mod 4 * 16 + unat b div 16),
      b64 (unat b mod 16 * 4), CHR ''='']"
| "base64 (a # b # c # rest) =
     [b64 (unat a div 4), b64 (unat a mod 4 * 16 + unat b div 16),
      b64 (unat b mod 16 * 4 + unat c div 64), b64 (unat c mod 64)] @ base64 rest"

definition startsWith :: "string \<Rightarrow> string \<Rightarrow> bool" where
  "startsWith s p = (take (length p) s = p)"

text \<open>\<^verbatim>\<open>extractTextFromPdf\<close>: \<^verbatim>\<open>res.text || ''\<close>.\<close>

definition extractTextFromPdf :: "net \<Rightarrow> byte list \<Rightarrow> exn + string" where
  "extractTextFromPdf n buffer =
     (case pdfParse n buffer of
        Inl e \<Rightarrow> Inl e
      | Inr None \<Rightarrow> Inr []
      | Inr (Some t) \<Rightarrow> Inr t)"

definition summaryPrompt :: "string \<Rightarrow> string" where
  "summaryPrompt textContent =
     ''Please summarize the following document:'' @ [CHR 0x0A, CHR 0x0A] @ textContent"

text \<open>
  The body of the loop over \<^verbatim>\<open>msg.parts\<close>: the content parts pushed for one part, and the
  lines written with \<^verbatim>\<open>console.error\<close>. Each \<^verbatim>\<open>try\<close>/\<^verbatim>\<open>catch\<close> of the source is
  the \<open>Inl\<close> branch here.
\<close>

definition normalizePart :: "net \<Rightarrow> part \<Rightarrow> content_part list \<times> string list" where
  "normalizePart n p =
     (case p of
        TextPart t \<Rightarrow> ([TextContent t], [])
      | FilePart url mediaType \<Rightarrow>
          if startsWith mediaType ''image/'' then
            (case fetchArrayBuffer n url of
               Inr arrayBuf \<Rightarrow>
                 ([ImageUrl (''data:'' @ mediaType @ '';base64,'' @ base64 arrayBuf)], [])
             | Inl err \<Rightarrow> ([], [''Error processing image attachment'']))
          else if mediaType = ''application/pdf'' then
            (case fetchArrayBuffer n url of
               Inl err \<Rightarrow> ([], [''Error processing PDF attachment''])
             | Inr arrayBuf \<Rightarrow>
                 (case extractTextFromPdf n arrayBuf of
                    Inl err \<Rightarrow> ([], [''Error processing PDF attachment''])
                  | Inr text \<Rightarrow>
                      ([TextContent (summaryPrompt (take 12000 text))], [])))
          else ([], [])
      | OtherPart ty \<Rightarrow> ([], []))"

text \<open>The inner loop, with \<^verbatim>\<open>contentParts\<close> and the console as accumulators.\<close>

fun contentLoop ::
  "net \<Rightarrow> part list \<Rightarrow> content_part list \<times> string list \<Rightarrow> content_part list \<times> string list"
where
  "contentLoop n [] acc = acc"
| "contentLoop n (p # ps) (contentParts, console) =
     contentLoop n ps
       (contentParts @ fst (normalizePart n p), console @ snd (normalizePart n p))"

definition isText :: "part \<Rightarrow> bool" where
  "isText p = (case p of TextPart t \<Rightarrow> True | _ \<Rightarrow> False)"

definition textOf :: "part \<Rightarrow> string" where
  "textOf p = (case p of TextPart t \<Rightarrow> t | _ \<Rightarrow> [])"

text \<open>The outer loop, with \<^verbatim>\<open>modelMessages\<close> and the console as accumulators.\<close>

fun messageLoop ::
  "net \<Rightarrow> chat_message list \<Rightarrow> model_message list \<times> string list \<Rightarrow>
   model_message list \<times> string list"
where
  "messageLoop n [] acc = acc"
| "messageLoop n (msg # msgs) (modelMessages, console) =
     (if role msg \<noteq> ''user'' then
        messageLoop n msgs
          (modelMessages @
             [\<lparr>m_role = role msg,
               content = Flat (concat (map textOf (filter isText (parts msg))))\<rparr>],
           console)
      else
        (let (contentParts, console') = contentLoop n (parts msg) ([], console)
         in messageLoop n msgs
              (modelMessages @ [\<lparr>m_role = ''user'', content = Blocks contentParts\<rparr>],
               console')))"

definition buildModelMessages :: "net \<Rightarrow> chat_message list \<Rightarrow> model_message list \<times> string list" where
  "buildModelMessages n uiMessages = messageLoop n uiMessages ([], [])"

section \<open>JavaScript values of unknown shape\<close>

text \<open>
  The request body before validation and the value the consumed stream resolves to are
  untyped. Numbers are the integers (token counts); \<^verbatim>\<open>NaN\<close> and fractions are left out.
\<close>

datatype jsval =
    JUndefined
  | JNull
  | JBool bool
  | JNum int
  | JStr string
  | JObj "(string \<times> jsval) list"

definition nullish :: "jsval \<Rightarrow> bool" where
  "nullish v = (v = JUndefined \<or> v = JNull)"

definition truthy :: "jsval \<Rightarrow> bool" where
  "truthy v =
     (case v of
        JUndefined \<Rightarrow> False
      | JNull \<Rightarrow> False
      | JBool b \<Rightarrow> b
      | JNum i \<Rightarrow> i \<noteq> 0
      | JStr s \<Rightarrow> s \<noteq> []
      | JObj kvs \<Rightarrow> True)"

text \<open>\<^verbatim>\<open>v.k\<close> on a value that is not nullish, and \<^verbatim>\<open>v?.k\<close> on any value.\<close>

definition getProp :: "jsval \<Rightarrow> string \<Rightarrow> jsval" where
  "getProp v k =
     (case v of
        JObj kvs \<Rightarrow> (case map_of kvs k of Some x \<Rightarrow> x | None \<Rightarrow> JUndefined)
      | _ \<Rightarrow> JUndefined)"

definition optProp :: "jsval \<Rightarrow> string \<Rightarrow> jsval" where
  "optProp v k = (if nullish v then JUndefined else getProp v k)"

text \<open>\<^verbatim>\<open>a ?? b\<close> and \<^verbatim>\<open>a || b\<close>.\<close>

definition coalesce :: "jsval \<Rightarrow> jsval \<Rightarrow> jsval" where
  "coalesce a b = (if nullish a then b else a)"

definition orElse :: "jsval \<Rightarrow> jsval \<Rightarrow> jsval" where
  "orElse a b = (if truthy a then a else b)"

section \<open>The chat store and the handler's environment\<close>

record user =
  user_id :: string       \<comment> \<open>\<^verbatim>\<open>session.user.id\<close>\<close>
  user_type :: string     \<comment> \<open>\<^verbatim>\<open>session.user.type\<close>\<close>

record chat =
  chat_id :: string
  userId :: string
  title :: string
  visibility :: string

text \<open>A message row; \<^verbatim>\<open>attachments\<close> (always empty) and \<^verbatim>\<open>createdAt\<close> (the clock) are left out.\<close>

record db_message =
  chatId :: string
  dbm_id :: string
  dbm_role :: string
  dbm_parts :: "part list"

record usage_data =
  promptTokens :: jsval
  completionTokens :: jsval
  totalTokens :: jsval

record usage_row = usage_data +
  log_userId :: string
  log_model :: string
  requestType :: string

record db =
  chats :: "chat list"
  messages :: "db_message list"
  streams :: "(string \<times> string) list"
  usage_log :: "usage_row list"

record request_hints =
  longitude :: "string option"
  latitude :: "string option"
  city :: "string option"
  country :: "string option"

text \<open>
  The argument of \<^verbatim>\<open>streamText\<close>; \<^verbatim>\<open>stopWhen: stepCountIs(5)\<close> is the number of steps.
  The smoothing transform and the telemetry switch are left out.
\<close>

record stream_config =
  model :: string
  system :: string
  cfg_messages :: "model_message list"
  stopWhen :: nat
  experimental_activeTools :: "string list"
  tools :: "string list"

text \<open>What the handler does to the outside, in the order it does it. A write is recorded
  when it is called, whether or not the store then accepts it.\<close>

datatype effect =
    GenerateTitle chat_message
  | SaveChat chat
  | SaveMessages "db_message list"
  | CreateStreamId string string
  | StreamText stream_config
  | SaveUsageLog usage_row
  | DeleteChatById string
  | ConsoleError string
  | ConsoleLog string

record world =
  store :: db
  trace :: "effect list"

datatype db_call =
    GetChatById | GetMessagesByChatId | SaveChatCall | SaveMessagesCall
  | CreateStreamIdCall | SaveUsageLogCall | DeleteChatByIdCall

record post_request_body =
  body_id :: string
  message :: chat_message
  selectedChatModel :: string
  selectedVisibilityType :: string

record request =
  json :: "exn + jsval"             \<comment> \<open>\<^verbatim>\<open>await request.json()\<close>\<close>
  geolocation :: request_hints      \<comment> \<open>\<^verbatim>\<open>geolocation(request)\<close>\<close>
  search_id :: "string option"      \<comment> \<open>\<^verbatim>\<open>searchParams.get('id')\<close>\<close>

text \<open>
  The collaborators of one request. The request-body schema, the entitlements table, the
  system prompt, \<^verbatim>\<open>convertToUIMessages\<close> and \<^verbatim>\<open>Number\<close> are parameters; the two counting
  queries are given by their results; \<open>dbError\<close> says which call to the store throws.
  Of \<^verbatim>\<open>getStreamContext\<close> only the result is kept: its module variable and the lines it
  writes to the console are left out.
\<close>

record env =
  postRequestBodySchema :: "jsval \<Rightarrow> exn + post_request_body"
  auth :: "exn + user option"
  entitlementsByUserType :: "string \<Rightarrow> int option"     \<comment> \<open>\<^verbatim>\<open>maxMessagesPerDay\<close> of a user type\<close>
  getMessageCountByUserId :: "exn + int"
  getUsageCountByUserId :: "exn + int"
  DAILY_REQUEST_LIMIT :: "string option"
  Number :: "string \<Rightarrow> int option"                         \<comment> \<open>\<open>None\<close> is \<^verbatim>\<open>NaN\<close>\<close>
  dbError :: "db_call \<Rightarrow> exn option"
  generateTitleFromUserMessage :: "exn + string"
  generateUUID :: string
  convertToUIMessages :: "db_message list \<Rightarrow> chat_message list"
  systemPrompt :: "string \<Rightarrow> request_hints \<Rightarrow> string"
  network :: net
  streamTextError :: "exn option"                         \<comment> \<open>\<^verbatim>\<open>streamText(...)\<close> throws\<close>
  consumeStreamError :: "exn option"                      \<comment> \<open>\<^verbatim>\<open>result.consumeStream()\<close> throws\<close>
  streamContext :: "exn option option"
    \<comment> \<open>what \<^verbatim>\<open>getStreamContext()\<close> returns: \<open>None\<close> is \<^verbatim>\<open>null\<close>; with a context,
        \<open>Some (Some e)\<close> says that \<^verbatim>\<open>resumableStream\<close> throws \<open>e\<close>\<close>

subsection \<open>The store's operations\<close>

text \<open>Modelled from the spec: the query layer (\<^verbatim>\<open>@/lib/db/queries\<close>) is not among the
  sources. A chat is looked up by its id; the messages of a chat are listed in the order they
  were saved; every save appends; deleting a chat removes it with its messages and stream ids.\<close>

definition getChatById :: "db \<Rightarrow> string \<Rightarrow> chat option" where
  "getChatById d i = find (\<lambda>c. chat_id c = i) (chats d)"

definition getMessagesByChatId :: "db \<Rightarrow> string \<Rightarrow> db_message list" where
  "getMessagesByChatId d i = filter (\<lambda>m. chatId m = i) (messages d)"

definition saveChat :: "chat \<Rightarrow> db \<Rightarrow> db" where
  "saveChat c d = d\<lparr>chats := chats d @ [c]\<rparr>"

definition saveMessages :: "db_message list \<Rightarrow> db \<Rightarrow> db" where
  "saveMessages ms d = d\<lparr>messages := messages d @ ms\<rparr>"

definition createStreamId :: "string \<Rightarrow> string \<Rightarrow> db \<Rightarrow> db" where
  "createStreamId sid cid d = d\<lparr>streams := streams d @ [(sid, cid)]\<rparr>"

definition saveUsageLog :: "usage_row \<Rightarrow> db \<Rightarrow> db" where
  "saveUsageLog r d = d\<lparr>usage_log := usage_log d @ [r]\<rparr>"

definition deleteChatById :: "string \<Rightarrow> db \<Rightarrow> db" where
  "deleteChatById i d =
     d\<lparr>chats := filter (\<lambda>c. chat_id c \<noteq> i) (chats d),
       messages := filter (\<lambda>m. chatId m \<noteq> i) (messages d),
       streams := filter (\<lambda>s. snd s \<noteq> i) (streams d)\<rparr>"

definition emit :: "effect \<Rightarrow> world \<Rightarrow> world" where
  "emit e w = w\<lparr>trace := trace w @ [e]\<rparr>"

text \<open>An awaited write: the call is recorded; it throws when the store fails, and changes
  the store otherwise.\<close>

definition dbWrite ::
  "env \<Rightarrow> db_call \<Rightarrow> effect \<Rightarrow> (db \<Rightarrow> db) \<Rightarrow> world \<Rightarrow> exn option \<times> world" where
  "dbWrite E c e f w =
     (case dbError E c of
        Some x \<Rightarrow> (Some x, emit e w)
      | None \<Rightarrow> (None, (emit e w)\<lparr>store := f (store w)\<rparr>))"

section \<open>The POST handler\<close>

text \<open>What the callbacks of the UI message stream close over.\<close>

record ui_stream =
  streamId :: string
  stream_chatId :: string
  stream_user :: user
  stream_model :: string
  consumePromise :: bool    \<comment> \<open>whether \<^verbatim>\<open>consumePromise\<close> was assigned\<close>

datatype response =
    ChatSDKResponse string        \<comment> \<open>\<^verbatim>\<open>new ChatSDKError(code).toResponse()\<close>\<close>
  | Response429 string            \<comment> \<open>status 429 with a \<^verbatim>\<open>{ message }\<close> body\<close>
  | StreamResponse ui_stream bool \<comment> \<open>the event stream; the flag says whether it is resumable\<close>
  | DeletedChat chat              \<comment> \<open>\<^verbatim>\<open>Response.json(deletedChat, { status: 200 })\<close>\<close>

text \<open>
  The body of the second \<^verbatim>\<open>try\<close> is given in three consecutive pieces. A piece returns
  \<open>Inl e\<close> when it throws \<open>e\<close>, \<open>Inr (Inl r)\<close> when it returns the response \<open>r\<close>, and
  \<open>Inr (Inr x)\<close> when control goes on with \<open>x\<close>.

  First piece: the session and the two ceilings.
\<close>

definition quotaGuard :: "env \<Rightarrow> world \<Rightarrow> (exn + (response + user)) \<times> world" where
  "quotaGuard E w =
     (case auth E of
        Inl e \<Rightarrow> (Inl e, w)
      | Inr None \<Rightarrow> (Inr (Inl (ChatSDKResponse ''unauthorized:chat'')), w)
      | Inr (Some u) \<Rightarrow>
          (case getMessageCountByUserId E of
             Inl e \<Rightarrow> (Inl e, w)
           | Inr messageCount \<Rightarrow>
               (case entitlementsByUserType E (user_type u) of
                  None \<Rightarrow> (Inl (TypeError ''Cannot read properties of undefined''), w)
                | Some maxMessagesPerDay \<Rightarrow>
                    if messageCount > maxMessagesPerDay
                    then (Inr (Inl (ChatSDKResponse ''rate_limit:chat'')), w)
                    else
                      (let (usageCount, w1) =
                             (case getUsageCountByUserId E of
                                Inr c \<Rightarrow> (c, w)
                              | Inl err \<Rightarrow>
                                  (0, emit (ConsoleError
                                        ''Error fetching usage count for rate-limiting'') w));
                           dailyLimit =
                             Number E (case DAILY_REQUEST_LIMIT E of
                                         None \<Rightarrow> ''100'' | Some s \<Rightarrow> s)
                       in if (case dailyLimit of None \<Rightarrow> False | Some l \<Rightarrow> usageCount \<ge> l)
                          then (Inr (Inl (Response429 ''Daily request limit exceeded.'')), w1)
                          else (Inr (Inr u), w1)))))"

text \<open>Second piece: the chat is created, or must belong to the caller.\<close>

definition openChat ::
  "env \<Rightarrow> post_request_body \<Rightarrow> user \<Rightarrow> world \<Rightarrow> (exn + (response + unit)) \<times> world" where
  "openChat E body u w =
     (case dbError E GetChatById of
        Some e \<Rightarrow> (Inl e, w)
      | None \<Rightarrow>
          (case getChatById (store w) (body_id body) of
             None \<Rightarrow>
               (let w1 = emit (GenerateTitle (message body)) w
                in case generateTitleFromUserMessage E of
                     Inl e \<Rightarrow> (Inl e, w1)
                   | Inr t \<Rightarrow>
                       (let c = \<lparr>chat_id = body_id body, userId = user_id u, title = t,
                                 visibility = selectedVisibilityType body\<rparr>
                        in case dbWrite E SaveChatCall (SaveChat c) (saveChat c) w1 of
                             (Some e, w2) \<Rightarrow> (Inl e, w2)
                           | (None, w2) \<Rightarrow> (Inr (Inr ()), w2)))
           | Some c \<Rightarrow>
               if userId c \<noteq> user_id u
               then (Inr (Inl (ChatSDKResponse ''forbidden:chat'')), w)
               else (Inr (Inr ()), w)))"

text \<open>The object passed to \<^verbatim>\<open>streamText\<close>.\<close>

definition streamTextArgs ::
  "env \<Rightarrow> string \<Rightarrow> request_hints \<Rightarrow> model_message list \<Rightarrow> stream_config" where
  "streamTextArgs E selectedModel requestHints modelMessagesForAI =
     \<lparr>model = selectedModel,
      system = systemPrompt E selectedModel requestHints,
      cfg_messages = modelMessagesForAI,
      stopWhen = 5,
      experimental_activeTools =
        (if selectedModel = ''chat-model-reasoning'' then []
         else [''getWeather'', ''updateDocument'', ''requestSuggestions'', ''webSearch'']),
      tools = [''getWeather'', ''createDocument'', ''updateDocument'',
               ''requestSuggestions'', ''webSearch'']\<rparr>"

text \<open>
  The \<^verbatim>\<open>execute\<close> callback, which \<^verbatim>\<open>createUIMessageStream\<close> calls when the stream is
  created: the model is invoked, then the consumption of its stream is started. The result
  says whether \<^verbatim>\<open>consumePromise\<close> was assigned. An exception of \<^verbatim>\<open>streamText\<close> leaves
  the callback and becomes an error event of the stream.
\<close>

definition execute :: "env \<Rightarrow> stream_config \<Rightarrow> world \<Rightarrow> bool \<times> world" where
  "execute E cfg w =
     (let w1 = emit (StreamText cfg) w
      in case streamTextError E of
           Some e \<Rightarrow> (False, w1)
         | None \<Rightarrow>
             (case consumeStreamError E of
                Some e \<Rightarrow> (False, emit (ConsoleError ''Error starting stream consumption'') w1)
              | None \<Rightarrow> (True, w1)))"

text \<open>The row saved for the new message of the user.\<close>

definition userRow :: "post_request_body \<Rightarrow> db_message" where
  "userRow body =
     \<lparr>chatId = body_id body, dbm_id = msg_id (message body), dbm_role = ''user'',
      dbm_parts = parts (message body)\<rparr>"

text \<open>Third piece: the context is loaded, the user's message is saved, the stream is opened.\<close>

definition openStream ::
  "env \<Rightarrow> request \<Rightarrow> post_request_body \<Rightarrow> user \<Rightarrow> world \<Rightarrow> (exn + response) \<times> world" where
  "openStream E req body u w =
     (case dbError E GetMessagesByChatId of
        Some e \<Rightarrow> (Inl e, w)
      | None \<Rightarrow>
          (let messagesFromDb = getMessagesByChatId (store w) (body_id body);
               uiMessages = convertToUIMessages E messagesFromDb @ [message body];
               (modelMessagesForAI, console) = buildModelMessages (network E) uiMessages;
               w1 = w\<lparr>trace := trace w @ map ConsoleError console\<rparr>;
               requestHints = geolocation req;
               row = userRow body
           in case dbWrite E SaveMessagesCall (SaveMessages [row]) (saveMessages [row]) w1 of
                (Some e, w2) \<Rightarrow> (Inl e, w2)
              | (None, w2) \<Rightarrow>
                  (let sid = generateUUID E
                   in case dbWrite E CreateStreamIdCall (CreateStreamId sid (body_id body))
                             (createStreamId sid (body_id body)) w2 of
                        (Some e, w3) \<Rightarrow> (Inl e, w3)
                      | (None, w3) \<Rightarrow>
                          (let (started, w4) =
                                 execute E (streamTextArgs E (selectedChatModel body)
                                              requestHints modelMessagesForAI) w3;
                               s = \<lparr>streamId = sid, stream_chatId = body_id body,
                                    stream_user = u,
                                    stream_model = selectedChatModel body,
                                    consumePromise = started\<rparr>
                           in case streamContext E of
                                None \<Rightarrow> (Inr (StreamResponse s False), w4)
                              | Some (Some e) \<Rightarrow> (Inl e, w4)
                              | Some None \<Rightarrow> (Inr (StreamResponse s True), w4)))))"

definition POST_try ::
  "env \<Rightarrow> request \<Rightarrow> post_request_body \<Rightarrow> world \<Rightarrow> (exn + response) \<times> world" where
  "POST_try E req body w =
     (case quotaGuard E w of
        (Inl e, w1) \<Rightarrow> (Inl e, w1)
      | (Inr (Inl r), w1) \<Rightarrow> (Inr r, w1)
      | (Inr (Inr u), w1) \<Rightarrow>
          (case openChat E body u w1 of
             (Inl e, w2) \<Rightarrow> (Inl e, w2)
           | (Inr (Inl r), w2) \<Rightarrow> (Inr r, w2)
           | (Inr (Inr _), w2) \<Rightarrow> openStream E req body u w2))"

text \<open>The first \<^verbatim>\<open>try\<close>: the body is read and validated against the schema.\<close>

definition parseBody :: "env \<Rightarrow> request \<Rightarrow> exn + post_request_body" where
  "parseBody E req =
     (case json req of Inl e \<Rightarrow> Inl e | Inr j \<Rightarrow> postRequestBodySchema E j)"

text \<open>
  The handler. The result is \<open>None\<close> when the function returns nothing: the last
  \<^verbatim>\<open>catch\<close> returns a response only for a \<^verbatim>\<open>ChatSDKError\<close>.
\<close>

definition POST :: "env \<Rightarrow> request \<Rightarrow> db \<Rightarrow> response option \<times> world" where
  "POST E req d =
     (let w = \<lparr>store = d, trace = []\<rparr>
      in case parseBody E req of
           Inl e \<Rightarrow> (Some (ChatSDKResponse ''bad_request:api''), w)
         | Inr requestBody \<Rightarrow>
             (case POST_try E req requestBody w of
                (Inr r, w') \<Rightarrow> (Some r, w')
              | (Inl (ChatSDKError code), w') \<Rightarrow> (Some (ChatSDKResponse code), w')
              | (Inl _, w') \<Rightarrow> (None, w')))"

section \<open>After the stream: usage and the assistant's messages\<close>

datatype promise_outcome = Rejected exn | Resolved jsval

definition extractUsage :: "jsval \<Rightarrow> usage_data" where
  "extractUsage usage =
     \<lparr>promptTokens =
        coalesce (coalesce (coalesce (getProp usage ''inputTokens'')
          (getProp usage ''promptTokens'')) (getProp usage ''prompt_tokens'')) (JNum 0),
      completionTokens =
        coalesce (coalesce (coalesce (getProp usage ''outputTokens'')
          (getProp usage ''completionTokens'')) (getProp usage ''completion_tokens'')) (JNum 0),
      totalTokens =
        coalesce (coalesce (getProp usage ''totalTokens'') (getProp usage ''total_tokens''))
          (JNum 0)\<rparr>"

text \<open>The \<^verbatim>\<open>then\<close> and \<^verbatim>\<open>catch\<close> handlers put on \<^verbatim>\<open>consumePromise\<close> in \<^verbatim>\<open>execute\<close>.\<close>

definition onConsumed :: "promise_outcome \<Rightarrow> usage_data \<times> world \<Rightarrow> usage_data \<times> world" where
  "onConsumed outcome uw =
     (case uw of (usageData, w) \<Rightarrow>
        (case outcome of
           Resolved res \<Rightarrow>
             (let usage = optProp res ''usage''
              in if truthy usage then (extractUsage usage, w) else (usageData, w))
         | Rejected err \<Rightarrow> (usageData, emit (ConsoleError ''Error capturing token usage'') w)))"

text \<open>The rows saved for the messages of the finished stream, and the usage row.\<close>

definition finishedRows :: "ui_stream \<Rightarrow> chat_message list \<Rightarrow> db_message list" where
  "finishedRows s msgs =
     map (\<lambda>m. \<lparr>chatId = stream_chatId s, dbm_id = msg_id m, dbm_role = role m,
                dbm_parts = parts m\<rparr>) msgs"

definition usageRow :: "ui_stream \<Rightarrow> usage_data \<Rightarrow> usage_row" where
  "usageRow s usageData =
     \<lparr>promptTokens = promptTokens usageData,
      completionTokens = completionTokens usageData,
      totalTokens = totalTokens usageData,
      log_userId = user_id (stream_user s),
      log_model = stream_model s,
      requestType = ''chat''\<rparr>"

text \<open>
  The \<^verbatim>\<open>onFinish\<close> callback, called with the messages of the finished stream. The result
  is the exception it throws, if any.
\<close>

definition onFinish ::
  "env \<Rightarrow> ui_stream \<Rightarrow> chat_message list \<Rightarrow> promise_outcome \<Rightarrow> usage_data \<Rightarrow> world \<Rightarrow>
   exn option \<times> world" where
  "onFinish E s msgs outcome usageData w =
     (let rows = finishedRows s msgs
      in case dbWrite E SaveMessagesCall (SaveMessages rows) (saveMessages rows) w of
           (Some e, w1) \<Rightarrow> (Some e, w1)
         | (None, w1) \<Rightarrow>
             (let (usageData', w2) =
                    (if consumePromise s then
                       (case outcome of
                          Rejected err \<Rightarrow>
                            (usageData,
                             emit (ConsoleError
                               ''Error awaiting consumePromise for usage data'') w1)
                        | Resolved res \<Rightarrow>
                            (let w' = emit (ConsoleLog ''--- FULL GROK RESULT OBJECT ---'') w1;
                                 usage =
                                   orElse (orElse (orElse (optProp res ''usage'')
                                     (optProp (optProp res ''data'') ''usage''))
                                     (optProp (optProp res ''metadata'') ''usage'')) JNull
                             in if truthy usage then (extractUsage usage, w')
                                else (usageData, w')))
                     else (usageData, w1));
                  w3 = emit (ConsoleLog ''--- GROK API USAGE DATA ---'') w2;
                  r = usageRow s usageData'
              in case dbWrite E SaveUsageLogCall (SaveUsageLog r) (saveUsageLog r) w3 of
                   (Some e, w4) \<Rightarrow> (None, emit (ConsoleError ''Error saving usage log'') w4)
                 | (None, w4) \<Rightarrow> (None, w4)))"

text \<open>
  The whole of what follows the stream of one turn: \<^verbatim>\<open>usageData\<close> starts at zero, the
  handlers on \<^verbatim>\<open>consumePromise\<close> run when it settles, and \<^verbatim>\<open>onFinish\<close> runs, its
  \<^verbatim>\<open>await consumePromise\<close> resuming after those handlers.
\<close>

definition zeroUsage :: usage_data where
  "zeroUsage = \<lparr>promptTokens = JNum 0, completionTokens = JNum 0, totalTokens = JNum 0\<rparr>"

definition finishTurn ::
  "env \<Rightarrow> ui_stream \<Rightarrow> chat_message list \<Rightarrow> promise_outcome \<Rightarrow> world \<Rightarrow> exn option \<times> world" where
  "finishTurn E s msgs outcome w =
     (let (usageData, w1) =
            (if consumePromise s then onConsumed outcome (zeroUsage, w) else (zeroUsage, w))
      in onFinish E s msgs outcome usageData w1)"

section \<open>The DELETE handler\<close>

text \<open>The handler has no \<^verbatim>\<open>try\<close>: \<open>Inl e\<close> is the exception that leaves it.\<close>

definition DELETE :: "env \<Rightarrow> request \<Rightarrow> db \<Rightarrow> (exn + response) \<times> world" where
  "DELETE E req d =
     (let w = \<lparr>store = d, trace = []\<rparr>
      in case search_id req of
           None \<Rightarrow> (Inr (ChatSDKResponse ''bad_request:api''), w)
         | Some i \<Rightarrow>
             if i = [] then (Inr (ChatSDKResponse ''bad_request:api''), w)
             else
               (case auth E of
                  Inl e \<Rightarrow> (Inl e, w)
                | Inr None \<Rightarrow> (Inr (ChatSDKResponse ''unauthorized:chat''), w)
                | Inr (Some u) \<Rightarrow>
                    (case dbError E GetChatById of
                       Some e \<Rightarrow> (Inl e, w)
                     | None \<Rightarrow>
                         (case getChatById d i of
                            None \<Rightarrow>
                              (Inl (TypeError ''Cannot read properties of undefined''), w)
                          | Some c \<Rightarrow>
                              if userId c \<noteq> user_id u
                              then (Inr (ChatSDKResponse ''forbidden:chat''), w)
                              else
                                (case dbWrite E DeleteChatByIdCall (DeleteChatById i)
                                        (deleteChatById i) w of
                                   (Some e, w1) \<Rightarrow> (Inl e, w1)
                                 | (None, w1) \<Rightarrow> (Inr (DeletedChat c), w1))))))"

section \<open>Notions used in the statements\<close>

text \<open>What \<^verbatim>\<open>buildModelMessages\<close> makes of one message, without the loop's accumulators.\<close>

definition normalizeMessage :: "net \<Rightarrow> chat_message \<Rightarrow> model_message" where
  "normalizeMessage n msg =
     (if role msg \<noteq> ''user'' then
        \<lparr>m_role = role msg, content = Flat (concat (map textOf (filter isText (parts msg))))\<rparr>
      else
        \<lparr>m_role = ''user'',
          content = Blocks (concat (map (\<lambda>p. fst (normalizePart n p)) (parts msg)))\<rparr>)"

text \<open>
  An attachment that does not normalise: a file part whose download fails, whose PDF text
  cannot be extracted, or whose media type is neither an image nor a PDF.
\<close>

definition attachmentFails :: "net \<Rightarrow> part \<Rightarrow> bool" where
  "attachmentFails n p =
     (case p of
        FilePart url mediaType \<Rightarrow>
          (if startsWith mediaType ''image/'' then isl (fetchArrayBuffer n url)
           else if mediaType = ''application/pdf'' then
             (case fetchArrayBuffer n url of
                Inl e \<Rightarrow> True
              | Inr buf \<Rightarrow> isl (extractTextFromPdf n buf))
           else True)
      | _ \<Rightarrow> False)"

definition isSaveMessages :: "effect \<Rightarrow> bool" where
  "isSaveMessages e = (case e of SaveMessages rows \<Rightarrow> True | _ \<Rightarrow> False)"

definition isStreamText :: "effect \<Rightarrow> bool" where
  "isStreamText e = (case e of StreamText cfg \<Rightarrow> True | _ \<Rightarrow> False)"

text \<open>The calls that write to the store, and the invocation of the model.\<close>

definition isWrite :: "effect \<Rightarrow> bool" where
  "isWrite e =
     (case e of
        SaveChat c \<Rightarrow> True
      | SaveMessages rows \<Rightarrow> True
      | CreateStreamId sid cid \<Rightarrow> True
      | SaveUsageLog r \<Rightarrow> True
      | DeleteChatById i \<Rightarrow> True
      | _ \<Rightarrow> False)"




section \<open>Example inputs\<close>

definition net0 :: net where
  "net0 =
     \<lparr>fetch = (\<lambda>url.
         if url = ''https://files/cat.png'' then FetchResponse True [0x4D, 0x61, 0x6E]
         else if url = ''https://files/long.pdf'' then FetchResponse True [0x25, 0x50]
         else if url = ''https://files/broken.pdf'' then FetchResponse True [0x00]
         else FetchResponse False []),
      pdfParse = (\<lambda>buf.
         if buf = [0x25, 0x50] then Inr (Some (replicate 12001 (CHR ''a'')))
         else Inl (Error ''Invalid PDF structure''))\<rparr>"

definition body0 :: post_request_body where
  "body0 =
     \<lparr>body_id = ''chat-1'',
      message = \<lparr>msg_id = ''m-1'', role = ''user'', parts = [TextPart ''hello'']\<rparr>,
      selectedChatModel = ''chat-model-reasoning'',
      selectedVisibilityType = ''private''\<rparr>"

definition env0 :: env where
  "env0 =
     \<lparr>postRequestBodySchema = (\<lambda>j.
         if nullish (getProp j ''id'') \<or> nullish (getProp j ''message'')
         then Inl (Error ''ZodError'') else Inr body0),
      auth = Inr (Some \<lparr>user_id = ''u-1'', user_type = ''regular''\<rparr>),
      entitlementsByUserType = (\<lambda>t.
         if t = ''guest'' then Some 20 else if t = ''regular'' then Some 100 else None),
      getMessageCountByUserId = Inr 7,
      getUsageCountByUserId = Inr 3,
      DAILY_REQUEST_LIMIT = None,
      Number = (\<lambda>s. if s = ''100'' then Some 100 else None),
      dbError = (\<lambda>c. None),
      generateTitleFromUserMessage = Inr ''Greeting'',
      generateUUID = ''stream-1'',
      convertToUIMessages =
        map (\<lambda>r. \<lparr>msg_id = dbm_id r, role = dbm_role r, parts = dbm_parts r\<rparr>),
      systemPrompt = (\<lambda>m h. ''You are a friendly assistant.''),
      network = net0,
      streamTextError = None,
      consumeStreamError = None,
      streamContext = None\<rparr>"

definition req0 :: request where
  "req0 =
     \<lparr>json = Inr (JObj [(''id'', JStr ''chat-1''), (''message'', JObj [])]),
      geolocation = \<lparr>longitude = None, latitude = None, city = None, country = None\<rparr>,
      search_id = Some ''chat-404''\<rparr>"

definition db0 :: db where
  "db0 = \<lparr>chats = [], messages = [], streams = [], usage_log = []\<rparr>"

definition stream0 :: ui_stream where
  "stream0 =
     \<lparr>streamId = ''stream-1'', stream_chatId = ''chat-1'',
      stream_user = \<lparr>user_id = ''u-1'', user_type = ''regular''\<rparr>,
      stream_model = ''chat-model-reasoning'', consumePromise = True\<rparr>"

section \<open>Attachment normalisation: what the loops compute\<close>

lemma contentLoop_eq:
  "contentLoop n ps acc =
     (fst acc @ concat (map (\<lambda>p. fst (normalizePart n p)) ps),
      snd acc @ concat (map (\<lambda>p. snd (normalizePart n p)) ps))"
  by (induction ps arbitrary: acc) (auto simp: case_prod_beta)

lemma messageLoop_fst:
  "fst (messageLoop n ms acc) = fst acc @ map (normalizeMessage n) ms"
proof (induction ms arbitrary: acc)
  case Nil
  then show ?case by simp
next
  case (Cons m ms)
  obtain a l where acc: "acc = (a, l)" by (cases acc)
  show ?case
    unfolding acc
    by (simp add: Cons.IH normalizeMessage_def contentLoop_eq case_prod_beta)
qed

lemma messageLoop_snd:
  "snd (messageLoop n ms acc) =
     snd acc @ concat (map (\<lambda>m. if role m \<noteq> ''user'' then []
                                  else concat (map (\<lambda>p. snd (normalizePart n p)) (parts m))) ms)"
proof (induction ms arbitrary: acc)
  case Nil
  then show ?case by simp
next
  case (Cons m ms)
  obtain a l where acc: "acc = (a, l)" by (cases acc)
  show ?case
    unfolding acc
    by (simp add: Cons.IH contentLoop_eq case_prod_beta)
qed

lemma buildModelMessages_map:
  "fst (buildModelMessages n ms) = map (normalizeMessage n) ms"
  by (simp add: buildModelMessages_def messageLoop_fst)

lemma buildModelMessages_console:
  "snd (buildModelMessages n ms) =
     concat (map (\<lambda>m. if role m \<noteq> ''user'' then []
                        else concat (map (\<lambda>p. snd (normalizePart n p)) (parts m))) ms)"
  by (simp add: buildModelMessages_def messageLoop_snd)

lemma attachmentFails_no_content:
  "attachmentFails n p \<Longrightarrow> fst (normalizePart n p) = []"
  by (auto simp: attachmentFails_def normalizePart_def isl_def
           split: part.splits if_splits sum.splits)

lemma image_fetch_failure_part:
  "startsWith mediaType ''image/'' \<Longrightarrow> fetchArrayBuffer n url = Inl e \<Longrightarrow>
   normalizePart n (FilePart url mediaType) = ([], [''Error processing image attachment''])"
  by (simp add: normalizePart_def)

section \<open>Image attachments whose download fails\<close>

text \<open>
  Claim C4, as stated, does not hold: for a user message with an \<^verbatim>\<open>image/png\<close> file part
  whose download answers with \<^verbatim>\<open>res.ok\<close> false, \<^verbatim>\<open>fetchArrayBuffer\<close> throws, and
  \<^verbatim>\<open>buildModelMessages\<close> nevertheless returns: one user message with no content part,
  and one line on the console.
\<close>

theorem image_fetch_failure_counterexample:
  "fetchArrayBuffer net0 ''https://files/gone.png'' = Inl (Error ''Failed to fetch file'') \<and>
   buildModelMessages net0
     [\<lparr>msg_id = ''m-1'', role = ''user'',
       parts = [FilePart ''https://files/gone.png'' ''image/png'']\<rparr>]
   = ([\<lparr>m_role = ''user'', content = Blocks []\<rparr>], [''Error processing image attachment''])"
  by (simp add: buildModelMessages_def normalizePart_def fetchArrayBuffer_def net0_def
        startsWith_def)

text \<open>
  Claim C4, amended: for every user message containing an \<^verbatim>\<open>image/*\<close> file part whose
  download does not succeed, attachment normalisation does not fail. The error is written to
  the console and the attachment is left out: the provider messages are those of the same
  conversation without that part, and the user message keeps the content parts of its other
  parts, in order.
\<close>

theorem image_fetch_failure_skipped:
  assumes "role m = ''user''"
    and "parts m = before @ [FilePart url mediaType] @ after"
    and "startsWith mediaType ''image/''"
    and "fetchArrayBuffer n url = Inl e"
  shows "fst (buildModelMessages n (pre @ [m] @ post)) =
           fst (buildModelMessages n (pre @ [m\<lparr>parts := before @ after\<rparr>] @ post))
       \<and> content (fst (buildModelMessages n (pre @ [m] @ post)) ! length pre) =
           Blocks (concat (map (\<lambda>p. fst (normalizePart n p)) (before @ after)))
       \<and> ''Error processing image attachment''
           \<in> set (snd (buildModelMessages n (pre @ [m] @ post)))"
proof -
  have part:
    "normalizePart n (FilePart url mediaType) = ([], [''Error processing image attachment''])"
    using assms(3,4) by (rule image_fetch_failure_part)
  have msg: "normalizeMessage n m = normalizeMessage n (m\<lparr>parts := before @ after\<rparr>)"
    using assms(1,2) part by (simp add: normalizeMessage_def)
  have c: "content (normalizeMessage n m) =
      Blocks (concat (map (\<lambda>p. fst (normalizePart n p)) (before @ after)))"
    using assms(1,2) part by (simp add: normalizeMessage_def)
  have l: "''Error processing image attachment''
      \<in> set (snd (buildModelMessages n (pre @ [m] @ post)))"
    using assms(1,2) part by (simp add: buildModelMessages_console)
  show ?thesis
    using msg c l by (simp add: buildModelMessages_map nth_append)
qed

theorem image_fetch_failure_skipped_witness:
  "startsWith ''image/png'' ''image/'' \<and>
   fetchArrayBuffer net0 ''https://files/gone.png'' = Inl (Error ''Failed to fetch file'') \<and>
   fst (buildModelMessages net0
     [\<lparr>msg_id = ''m-1'', role = ''user'',
       parts = [TextPart ''look'', FilePart ''https://files/gone.png'' ''image/png'']\<rparr>])
   = [\<lparr>m_role = ''user'', content = Blocks [TextContent ''look'']\<rparr>]"
proof -
  have f: "fetchArrayBuffer net0 ''https://files/gone.png'' = Inl (Error ''Failed to fetch file'')"
    by (simp add: fetchArrayBuffer_def net0_def)
  have s: "startsWith ''image/png'' ''image/''"
    by (simp add: startsWith_def)
  show ?thesis
    using f s image_fetch_failure_skipped
      [of "\<lparr>msg_id = ''m-1'', role = ''user'',
           parts = [TextPart ''look'', FilePart ''https://files/gone.png'' ''image/png'']\<rparr>"
          "[TextPart ''look'']" "''https://files/gone.png''" "''image/png''" "[]" net0
          "Error ''Failed to fetch file''" "[]" "[]", OF _ _ s f]
    by (simp add: buildModelMessages_def normalizePart_def)
qed

section \<open>PDF attachments\<close>

lemma pdf_part_ok:
  "fetchArrayBuffer n url = Inr buf \<Longrightarrow> pdfParse n buf = Inr (Some text) \<Longrightarrow>
   normalizePart n (FilePart url ''application/pdf'') =
     ([TextContent (summaryPrompt (take 12000 text))], [])"
  by (simp add: normalizePart_def startsWith_def extractTextFromPdf_def)

lemma pdf_part_failed:
  "isl (fetchArrayBuffer n url) \<or> (fetchArrayBuffer n url = Inr buf \<and> isl (pdfParse n buf)) \<Longrightarrow>
   normalizePart n (FilePart url ''application/pdf'') = ([], [''Error processing PDF attachment''])"
  by (auto simp: normalizePart_def startsWith_def extractTextFromPdf_def isl_def)

text \<open>
  Claim C6: for every \<^verbatim>\<open>application/pdf\<close> attachment of a user message whose extracted
  text is longer than 12,000 characters, the text put into the prompt is its first 12,000
  characters, exactly 12,000 of them, in one text part that starts with the instruction to
  summarise. When the download or the extraction fails, the attachment is left out and
  normalisation goes on: the result is that of the conversation without the part, with one
  provider message for each message.
\<close>

theorem pdf_text_truncated:
  assumes "role m = ''user''"
    and "parts m = before @ [FilePart url ''application/pdf''] @ after"
  shows
    "(fetchArrayBuffer n url = Inr buf \<and> pdfParse n buf = Inr (Some text) \<and>
      length text > 12000 \<longrightarrow>
        content (fst (buildModelMessages n (pre @ [m] @ post)) ! length pre) =
          Blocks (concat (map (\<lambda>p. fst (normalizePart n p)) before) @
                  [TextContent (''Please summarize the following document:'' @
                     [CHR 0x0A, CHR 0x0A] @ take 12000 text)] @
                  concat (map (\<lambda>p. fst (normalizePart n p)) after))
        \<and> length (take 12000 text) = 12000)
   \<and> (isl (fetchArrayBuffer n url) \<or>
        (fetchArrayBuffer n url = Inr buf \<and> isl (pdfParse n buf)) \<longrightarrow>
        fst (buildModelMessages n (pre @ [m] @ post)) =
          fst (buildModelMessages n (pre @ [m\<lparr>parts := before @ after\<rparr>] @ post))
        \<and> length (fst (buildModelMessages n (pre @ [m] @ post))) = length (pre @ [m] @ post))"
proof (intro conjI impI)
  assume ok: "fetchArrayBuffer n url = Inr buf \<and> pdfParse n buf = Inr (Some text) \<and>
      length text > 12000"
  then have part: "normalizePart n (FilePart url ''application/pdf'') =
      ([TextContent (summaryPrompt (take 12000 text))], [])"
    by (simp add: pdf_part_ok)
  show "content (fst (buildModelMessages n (pre @ [m] @ post)) ! length pre) =
          Blocks (concat (map (\<lambda>p. fst (normalizePart n p)) before) @
                  [TextContent (''Please summarize the following document:'' @
                     [CHR 0x0A, CHR 0x0A] @ take 12000 text)] @
                  concat (map (\<lambda>p. fst (normalizePart n p)) after))"
    using assms part
    by (simp add: buildModelMessages_map nth_append normalizeMessage_def summaryPrompt_def)
  show "length (take 12000 text) = 12000"
    using ok by simp
next
  assume bad: "isl (fetchArrayBuffer n url) \<or>
        (fetchArrayBuffer n url = Inr buf \<and> isl (pdfParse n buf))"
  then have part: "normalizePart n (FilePart url ''application/pdf'') =
      ([], [''Error processing PDF attachment''])"
    by (rule pdf_part_failed)
  have "normalizeMessage n m = normalizeMessage n (m\<lparr>parts := before @ after\<rparr>)"
    using assms part by (simp add: normalizeMessage_def)
  then show "fst (buildModelMessages n (pre @ [m] @ post)) =
          fst (buildModelMessages n (pre @ [m\<lparr>parts := before @ after\<rparr>] @ post))"
    by (simp add: buildModelMessages_map)
  show "length (fst (buildModelMessages n (pre @ [m] @ post))) = length (pre @ [m] @ post)"
    by (simp add: buildModelMessages_map)
qed

theorem pdf_text_truncated_witness:
  "fetchArrayBuffer net0 ''https://files/long.pdf'' = Inr [0x25, 0x50] \<and>
   pdfParse net0 [0x25, 0x50] = Inr (Some (replicate 12001 (CHR ''a''))) \<and>
   length (replicate 12001 (CHR ''a'')) > 12000 \<and>
   content (fst (buildModelMessages net0
     [\<lparr>msg_id = ''m-1'', role = ''user'',
       parts = [FilePart ''https://files/long.pdf'' ''application/pdf'']\<rparr>]) ! 0) =
     Blocks [TextContent (''Please summarize the following document:'' @
               [CHR 0x0A, CHR 0x0A] @ replicate 12000 (CHR ''a''))] \<and>
   fetchArrayBuffer net0 ''https://files/broken.pdf'' = Inr [0x00] \<and>
   isl (pdfParse net0 [0x00]) \<and>
   fst (buildModelMessages net0
     [\<lparr>msg_id = ''m-2'', role = ''user'',
       parts = [TextPart ''see'', FilePart ''https://files/broken.pdf'' ''application/pdf'']\<rparr>]) =
     [\<lparr>m_role = ''user'', content = Blocks [TextContent ''see'']\<rparr>]"
proof -
  have f1: "fetchArrayBuffer net0 ''https://files/long.pdf'' = Inr [0x25, 0x50]"
    by (simp add: fetchArrayBuffer_def net0_def)
  have p1: "pdfParse net0 [0x25, 0x50] = Inr (Some (replicate 12001 (CHR ''a'')))"
    by (simp add: net0_def)
  have f2: "fetchArrayBuffer net0 ''https://files/broken.pdf'' = Inr [0x00]"
    by (simp add: fetchArrayBuffer_def net0_def)
  have p2: "isl (pdfParse net0 [0x00])"
    by (simp add: net0_def)
  have a: "content (fst (buildModelMessages net0
     [\<lparr>msg_id = ''m-1'', role = ''user'',
       parts = [FilePart ''https://files/long.pdf'' ''application/pdf'']\<rparr>]) ! 0) =
     Blocks [TextContent (''Please summarize the following document:'' @
               [CHR 0x0A, CHR 0x0A] @ replicate 12000 (CHR ''a''))]"
    using f1 p1 pdf_text_truncated
      [of "\<lparr>msg_id = ''m-1'', role = ''user'',
           parts = [FilePart ''https://files/long.pdf'' ''application/pdf'']\<rparr>"
          "[]" "''https://files/long.pdf''" "[]" net0 "[0x25, 0x50]"
          "replicate 12001 (CHR ''a'')" "[]" "[]"]
    by simp
  have b: "fst (buildModelMessages net0
     [\<lparr>msg_id = ''m-2'', role = ''user'',
       parts = [TextPart ''see'', FilePart ''https://files/broken.pdf'' ''application/pdf'']\<rparr>]) =
     [\<lparr>m_role = ''user'', content = Blocks [TextContent ''see'']\<rparr>]"
    using f2 p2 pdf_text_truncated
      [of "\<lparr>msg_id = ''m-2'', role = ''user'',
           parts = [TextPart ''see'', FilePart ''https://files/broken.pdf'' ''application/pdf'']\<rparr>"
          "[TextPart ''see'']" "''https://files/broken.pdf''" "[]" net0 "[0x00]"
          "[]" "[]" "[]"]
    by (simp add: buildModelMessages_def normalizePart_def)
  show ?thesis
    using f1 p1 f2 p2 a b by simp
qed

section \<open>Count, order and roles of the provider messages\<close>

text \<open>
  Claim C10: \<^verbatim>\<open>buildModelMessages\<close> keeps the number, the order and the roles of the
  messages. The provider message at each position has the role of the message at that
  position; a message that is not the user's carries the concatenation of its text parts; a
  user message gives exactly one provider message, whose content parts are those of its
  parts in order, and so an empty list when every part is an attachment that fails to
  normalise.
\<close>

theorem buildModelMessages_preserves:
  "length (fst (buildModelMessages n ms)) = length ms \<and>
   (\<forall>i < length ms.
      m_role (fst (buildModelMessages n ms) ! i) = role (ms ! i) \<and>
      (role (ms ! i) \<noteq> ''user'' \<longrightarrow>
         content (fst (buildModelMessages n ms) ! i) =
           Flat (concat (map textOf (filter isText (parts (ms ! i)))))) \<and>
      (role (ms ! i) = ''user'' \<longrightarrow>
         content (fst (buildModelMessages n ms) ! i) =
           Blocks (concat (map (\<lambda>p. fst (normalizePart n p)) (parts (ms ! i))))) \<and>
      (role (ms ! i) = ''user'' \<and> (\<forall>p \<in> set (parts (ms ! i)). attachmentFails n p) \<longrightarrow>
         content (fst (buildModelMessages n ms) ! i) = Blocks []))"
proof -
  have e: "(\<forall>p \<in> set ps. attachmentFails n p) \<Longrightarrow>
      concat (map (\<lambda>p. fst (normalizePart n p)) ps) = []" for ps
    by (simp add: attachmentFails_no_content)
  show ?thesis
    using e by (auto simp: buildModelMessages_map normalizeMessage_def)
qed

theorem buildModelMessages_preserves_witness:
  "list_all (attachmentFails net0)
     [FilePart ''https://files/gone.png'' ''image/png'',
      FilePart ''https://files/broken.pdf'' ''application/pdf'',
      FilePart ''https://files/clip.mp4'' ''video/mp4''] \<and>
   fst (buildModelMessages net0
     [\<lparr>msg_id = ''a-1'', role = ''assistant'',
       parts = [TextPart ''Hi'', OtherPart ''step-start'', TextPart '' there'']\<rparr>,
      \<lparr>msg_id = ''m-2'', role = ''user'',
       parts = [FilePart ''https://files/gone.png'' ''image/png'',
                FilePart ''https://files/broken.pdf'' ''application/pdf'',
                FilePart ''https://files/clip.mp4'' ''video/mp4'']\<rparr>]) =
     [\<lparr>m_role = ''assistant'', content = Flat ''Hi there''\<rparr>,
      \<lparr>m_role = ''user'', content = Blocks []\<rparr>]"
proof -
  let ?ms = "[\<lparr>msg_id = ''a-1'', role = ''assistant'',
       parts = [TextPart ''Hi'', OtherPart ''step-start'', TextPart '' there'']\<rparr>,
      \<lparr>msg_id = ''m-2'', role = ''user'',
       parts = [FilePart ''https://files/gone.png'' ''image/png'',
                FilePart ''https://files/broken.pdf'' ''application/pdf'',
                FilePart ''https://files/clip.mp4'' ''video/mp4'']\<rparr>]"
  let ?out = "fst (buildModelMessages net0 ?ms)"
  have fails: "list_all (attachmentFails net0)
     [FilePart ''https://files/gone.png'' ''image/png'',
      FilePart ''https://files/broken.pdf'' ''application/pdf'',
      FilePart ''https://files/clip.mp4'' ''video/mp4'']"
    by (simp add: attachmentFails_def startsWith_def fetchArrayBuffer_def net0_def
          extractTextFromPdf_def)
  have two: "x = [\<lparr>m_role = a, content = b\<rparr>, \<lparr>m_role = c, content = d\<rparr>]"
    if "length x = Suc (Suc 0)" "m_role (x ! 0) = a" "content (x ! 0) = b"
       "m_role (x ! Suc 0) = c" "content (x ! Suc 0) = d"
    for x :: "model_message list" and a b c d
    using that by (auto simp: length_Suc_conv)
  have shape: "length ?out = Suc (Suc 0) \<and>
      m_role (?out ! 0) = ''assistant'' \<and> content (?out ! 0) = Flat ''Hi there'' \<and>
      m_role (?out ! Suc 0) = ''user'' \<and> content (?out ! Suc 0) = Blocks []"
    using fails buildModelMessages_preserves [of net0 ?ms]
    by (simp add: isText_def textOf_def All_less_Suc2 numeral_2_eq_2
          attachmentFails_no_content)
  then have "?out = [\<lparr>m_role = ''assistant'', content = Flat ''Hi there''\<rparr>,
      \<lparr>m_role = ''user'', content = Blocks []\<rparr>]"
    by (intro two) simp_all
  with fails show ?thesis by simp
qed

section \<open>The effects of the pieces of the POST handler\<close>

lemma dbWrite_trace: "trace (snd (dbWrite E c e f w)) = trace w @ [e]"
  by (simp add: dbWrite_def emit_def split: option.splits)

lemma dbWrite_store:
  "store (snd (dbWrite E c e f w)) = (if dbError E c = None then f (store w) else store w)"
  by (auto simp: dbWrite_def emit_def split: option.splits)

lemma quotaGuard_effects:
  assumes "quotaGuard E w = (r, w')"
  shows "store w' = store w \<and>
         (\<exists>l. trace w' = trace w @ l \<and> (\<forall>e \<in> set l. \<not> isWrite e \<and> \<not> isStreamText e))"
  using assms
  by (auto simp: quotaGuard_def Let_def emit_def isWrite_def isStreamText_def
           split: sum.splits option.splits if_splits prod.splits)

lemma openChat_effects:
  assumes "openChat E body u w = (r, w')"
  shows "messages (store w') = messages (store w) \<and>
         (\<exists>l. trace w' = trace w @ l \<and>
              (\<forall>e \<in> set l. \<not> isSaveMessages e \<and> \<not> isStreamText e))"
  using assms
  by (auto simp: openChat_def Let_def emit_def dbWrite_def saveChat_def isSaveMessages_def
                 isStreamText_def
           split: sum.splits option.splits if_splits prod.splits)

lemma execute_effects:
  assumes "execute E cfg w = (b, w')"
  shows "store w' = store w \<and>
         (\<exists>l. trace w' = trace w @ StreamText cfg # l \<and>
              (\<forall>e \<in> set l. \<not> isWrite e \<and> \<not> isStreamText e))"
  using assms
  by (auto simp: execute_def Let_def emit_def isWrite_def isStreamText_def
           split: option.splits)

lemma isSaveMessages_isWrite: "isSaveMessages e \<Longrightarrow> isWrite e"
  by (cases e) (simp_all add: isSaveMessages_def isWrite_def)

lemma filter_quiet:
  "\<forall>e \<in> set l. \<not> isWrite e \<and> \<not> isStreamText e \<Longrightarrow>
   filter (\<lambda>e. isSaveMessages e \<or> isStreamText e) l = []"
  by (auto simp: filter_empty_conv dest: isSaveMessages_isWrite)

lemma filter_quiet2:
  "\<forall>e \<in> set l. \<not> isSaveMessages e \<and> \<not> isStreamText e \<Longrightarrow>
   filter (\<lambda>e. isSaveMessages e \<or> isStreamText e) l = []"
  by (auto simp: filter_empty_conv)

lemma filter_console:
  "filter (\<lambda>e. isSaveMessages e \<or> isStreamText e) (map ConsoleError l) = []"
  by (auto simp: filter_empty_conv isSaveMessages_def isStreamText_def)

lemma effect_kinds:
  "isSaveMessages (SaveMessages rows)" "isStreamText (StreamText cfg)"
  "\<not> isSaveMessages (CreateStreamId sid cid)" "\<not> isStreamText (CreateStreamId sid cid)"
  "\<not> isSaveMessages (StreamText cfg)" "\<not> isStreamText (SaveMessages rows)"
  "\<not> isSaveMessages (SaveUsageLog r)" "\<not> isStreamText (SaveUsageLog r)"
  "\<not> isSaveMessages (ConsoleError t)" "\<not> isStreamText (ConsoleError t)"
  "\<not> isSaveMessages (ConsoleLog t)" "\<not> isStreamText (ConsoleLog t)"
  by (simp_all add: isSaveMessages_def isStreamText_def)

lemma openStream_invoked:
  assumes "openStream E req body u w = (r, w')"
    and "StreamText cfg \<in> set (trace w')"
    and "StreamText cfg \<notin> set (trace w)"
  shows "\<exists>l l'.
           messages (store w') = messages (store w) @ [userRow body] \<and>
           trace w' = trace w @ map ConsoleError l @
              [SaveMessages [userRow body], CreateStreamId (generateUUID E) (body_id body),
               StreamText cfg] @ l' \<and>
           (\<forall>e \<in> set l'. \<not> isWrite e \<and> \<not> isStreamText e) \<and>
           (\<forall>s b. r = Inr (StreamResponse s b) \<longrightarrow> stream_chatId s = body_id body)"
proof -
  obtain ms l where b: "buildModelMessages (network E)
      (convertToUIMessages E (getMessagesByChatId (store w) (body_id body)) @ [message body])
      = (ms, l)"
    by (cases "buildModelMessages (network E)
      (convertToUIMessages E (getMessagesByChatId (store w) (body_id body)) @ [message body])")
  let ?w1 = "w\<lparr>trace := trace w @ map ConsoleError l\<rparr>"
  let ?w2 = "snd (dbWrite E SaveMessagesCall (SaveMessages [userRow body])
                    (saveMessages [userRow body]) ?w1)"
  let ?w3 = "snd (dbWrite E CreateStreamIdCall (CreateStreamId (generateUUID E) (body_id body))
                    (createStreamId (generateUUID E) (body_id body)) ?w2)"
  let ?cfg = "streamTextArgs E (selectedChatModel body) (geolocation req) ms"
  obtain started w4 where ex: "execute E ?cfg ?w3 = (started, w4)"
    by (cases "execute E ?cfg ?w3")
  have console: "StreamText cfg \<notin> set (map ConsoleError l)"
    by auto
  have ok: "dbError E GetMessagesByChatId = None \<and> dbError E SaveMessagesCall = None \<and>
      dbError E CreateStreamIdCall = None"
    using assms b console
    by (auto simp: openStream_def Let_def dbWrite_def emit_def split: option.splits)
  then have w': "w' = w4"
    using assms(1) b ex
    by (auto simp: openStream_def Let_def dbWrite_def split: option.splits prod.splits)
  have resp: "\<forall>s b. r = Inr (StreamResponse s b) \<longrightarrow> stream_chatId s = body_id body"
    using assms(1) b ex ok
    by (auto simp: openStream_def Let_def dbWrite_def split: option.splits prod.splits)
  from execute_effects[OF ex] obtain l' where
    e: "store w4 = store ?w3" "trace w4 = trace ?w3 @ StreamText ?cfg # l'"
       "\<forall>e \<in> set l'. \<not> isWrite e \<and> \<not> isStreamText e"
    by blast
  have t: "trace w4 = trace w @ map ConsoleError l @
              [SaveMessages [userRow body], CreateStreamId (generateUUID E) (body_id body),
               StreamText ?cfg] @ l'"
    using e(2) by (simp add: dbWrite_trace)
  have "StreamText cfg \<notin> set l'"
    using e(3) effect_kinds(2)[of cfg] by auto
  then have cfg: "cfg = ?cfg"
    using assms(2,3) console t w' by auto
  have m: "messages (store w4) = messages (store w) @ [userRow body]"
    using e(1) ok by (simp add: dbWrite_store saveMessages_def createStreamId_def)
  show ?thesis
    using m t e(3) w' cfg resp by blast
qed

lemma POST_invoked:
  assumes "StreamText cfg \<in> set (trace (snd (POST E req d)))"
  shows "\<exists>body. parseBody E req = Inr body \<and>
           filter (\<lambda>e. isSaveMessages e \<or> isStreamText e) (trace (snd (POST E req d))) =
             [SaveMessages [userRow body], StreamText cfg] \<and>
           messages (store (snd (POST E req d))) = messages d @ [userRow body] \<and>
           (\<forall>s b. fst (POST E req d) = Some (StreamResponse s b) \<longrightarrow>
              stream_chatId s = body_id body)"
proof -
  let ?w = "\<lparr>store = d, trace = []\<rparr>"
  obtain body where body: "parseBody E req = Inr body"
    using assms by (cases "parseBody E req") (auto simp: POST_def Let_def)
  have tr: "snd (POST E req d) = snd (POST_try E req body ?w)"
    using body by (auto simp: POST_def Let_def split: prod.splits sum.splits exn.splits)
  have resp: "fst (POST E req d) = Some (StreamResponse s b) \<Longrightarrow>
      fst (POST_try E req body ?w) = Inr (StreamResponse s b)" for s b
    using body by (auto simp: POST_def Let_def split: prod.splits sum.splits exn.splits)
  obtain r1 w1 where q: "quotaGuard E ?w = (r1, w1)"
    by (cases "quotaGuard E ?w")
  from quotaGuard_effects[OF q] obtain l1 where
    1: "store w1 = d" "trace w1 = l1" "\<forall>e \<in> set l1. \<not> isWrite e \<and> \<not> isStreamText e"
    by auto
  have n1: "StreamText cfg \<notin> set (trace w1)"
    using 1 effect_kinds(2)[of cfg] by auto
  show ?thesis
  proof (cases r1)
    case (Inl e)
    then show ?thesis using assms tr q n1 by (simp add: POST_try_def)
  next
    case (Inr x)
    show ?thesis
    proof (cases x)
      case (Inl resp)
      then show ?thesis using assms tr q n1 Inr by (simp add: POST_try_def)
    next
      case u: (Inr u)
      obtain r2 w2 where c: "openChat E body u w1 = (r2, w2)"
        by (cases "openChat E body u w1")
      from openChat_effects[OF c] obtain l2 where
        2: "messages (store w2) = messages (store w1)" "trace w2 = trace w1 @ l2"
           "\<forall>e \<in> set l2. \<not> isSaveMessages e \<and> \<not> isStreamText e"
        by auto
      have n2: "StreamText cfg \<notin> set (trace w2)"
        using 2 n1 effect_kinds(2)[of cfg] by auto
      show ?thesis
      proof (cases r2)
        case (Inl e)
        then show ?thesis using assms tr q Inr u c n2 by (simp add: POST_try_def)
      next
        case r2: (Inr y)
        show ?thesis
        proof (cases y)
          case (Inl resp)
          then show ?thesis using assms tr q Inr u c r2 n2 by (simp add: POST_try_def)
        next
          case y: (Inr z)
          obtain r3 w3 where o: "openStream E req body u w2 = (r3, w3)"
            by (cases "openStream E req body u w2")
          have p: "POST_try E req body ?w = (r3, w3)"
            using q Inr u c r2 y o by (simp add: POST_try_def)
          then have w3: "snd (POST E req d) = w3"
            using tr by simp
          with assms have "StreamText cfg \<in> set (trace w3)" by simp
          from openStream_invoked[OF o this n2] obtain l l' where
            3: "messages (store w3) = messages (store w2) @ [userRow body]"
               "trace w3 = trace w2 @ map ConsoleError l @
                  [SaveMessages [userRow body],
                   CreateStreamId (generateUUID E) (body_id body), StreamText cfg] @ l'"
               "\<forall>e \<in> set l'. \<not> isWrite e \<and> \<not> isStreamText e"
               "\<forall>s b. r3 = Inr (StreamResponse s b) \<longrightarrow> stream_chatId s = body_id body"
            by blast
          have f: "filter (\<lambda>e. isSaveMessages e \<or> isStreamText e) (trace w3) =
              [SaveMessages [userRow body], StreamText cfg]"
          proof -
            have "filter (\<lambda>e. isSaveMessages e \<or> isStreamText e) l1 = []"
              using 1(3) by (rule filter_quiet)
            moreover have "filter (\<lambda>e. isSaveMessages e \<or> isStreamText e) l2 = []"
              using 2(3) by (rule filter_quiet2)
            moreover have "filter (\<lambda>e. isSaveMessages e \<or> isStreamText e) l' = []"
              using 3(3) by (rule filter_quiet)
            ultimately show ?thesis
              using 1(2) 2(2) 3(2) by (simp add: filter_console effect_kinds)
          qed
          have s: "\<forall>s b. fst (POST E req d) = Some (StreamResponse s b) \<longrightarrow>
              stream_chatId s = body_id body"
            using resp p 3(4) by auto
          show ?thesis
            using body f 1(1) 2(1) 3(1) w3 s by auto
        qed
      qed
    qed
  qed
qed

lemma openStream_model:
  assumes "openStream E req body u w = (r, w')" and "StreamText cfg \<in> set (trace w')"
  shows "StreamText cfg \<in> set (trace w) \<or>
         (\<exists>ms. cfg = streamTextArgs E (selectedChatModel body) (geolocation req) ms)"
  using assms
  by (auto simp: openStream_def execute_def dbWrite_def Let_def emit_def
           split: option.splits prod.splits)

lemma POST_model:
  assumes "StreamText cfg \<in> set (trace (snd (POST E req d)))"
  shows "\<exists>body ms. parseBody E req = Inr body \<and>
           cfg = streamTextArgs E (selectedChatModel body) (geolocation req) ms"
proof -
  let ?w = "\<lparr>store = d, trace = []\<rparr>"
  obtain body where body: "parseBody E req = Inr body"
    using assms by (cases "parseBody E req") (auto simp: POST_def Let_def)
  have tr: "snd (POST E req d) = snd (POST_try E req body ?w)"
    using body by (auto simp: POST_def Let_def split: prod.splits sum.splits exn.splits)
  obtain r1 w1 where q: "quotaGuard E ?w = (r1, w1)"
    by (cases "quotaGuard E ?w")
  from quotaGuard_effects[OF q] have 1: "StreamText cfg \<notin> set (trace w1)"
    using effect_kinds(2)[of cfg] by auto
  show ?thesis
  proof (cases r1)
    case (Inl e)
    then show ?thesis using assms tr q 1 by (simp add: POST_try_def)
  next
    case (Inr x)
    show ?thesis
    proof (cases x)
      case (Inl resp)
      then show ?thesis using assms tr q 1 Inr by (simp add: POST_try_def)
    next
      case u: (Inr u)
      obtain r2 w2 where c: "openChat E body u w1 = (r2, w2)"
        by (cases "openChat E body u w1")
      from openChat_effects[OF c] 1 have 2: "StreamText cfg \<notin> set (trace w2)"
        using effect_kinds(2)[of cfg] by auto
      show ?thesis
      proof (cases r2)
        case (Inl e)
        then show ?thesis using assms tr q Inr u c 2 by (simp add: POST_try_def)
      next
        case r2: (Inr y)
        show ?thesis
        proof (cases y)
          case (Inl resp)
          then show ?thesis using assms tr q Inr u c r2 2 by (simp add: POST_try_def)
        next
          case y: (Inr z)
          obtain r3 w3 where o: "openStream E req body u w2 = (r3, w3)"
            by (cases "openStream E req body u w2")
          have "snd (POST E req d) = w3"
            using tr q Inr u c r2 y o by (simp add: POST_try_def)
          with assms have "StreamText cfg \<in> set (trace w3)" by simp
          from openStream_model[OF o this] 2 body show ?thesis by blast
        qed
      qed
    qed
  qed
qed

lemmas handler_defs =
  POST_def parseBody_def POST_try_def quotaGuard_def openChat_def openStream_def execute_def
  dbWrite_def emit_def Let_def streamTextArgs_def userRow_def buildModelMessages_def
  normalizePart_def getChatById_def getMessagesByChatId_def saveChat_def saveMessages_def
  createStreamId_def

lemmas example_defs =
  env0_def req0_def body0_def db0_def stream0_def net0_def getProp_def nullish_def

section \<open>Malformed request bodies\<close>

text \<open>
  Claim C8: for every POST request whose body is malformed (reading it as JSON throws, or it
  fails the schema, for instance because \<^verbatim>\<open>id\<close> or \<^verbatim>\<open>message\<close> is missing), the response is
  the \<^verbatim>\<open>bad_request:api\<close> error, and nothing has been done before it: the store is
  unchanged and no call was made.
\<close>

theorem malformed_body_bad_request:
  assumes "isl (parseBody E req)"
  shows "POST E req d = (Some (ChatSDKResponse ''bad_request:api''), \<lparr>store = d, trace = []\<rparr>)"
  using assms by (cases "parseBody E req") (simp_all add: POST_def)

theorem malformed_body_bad_request_witness:
  "isl (parseBody env0 (req0\<lparr>json := Inr (JObj [(''message'', JObj [])])\<rparr>)) \<and>
   POST env0 (req0\<lparr>json := Inr (JObj [(''message'', JObj [])])\<rparr>) db0 =
     (Some (ChatSDKResponse ''bad_request:api''), \<lparr>store = db0, trace = []\<rparr>)"
proof -
  have m: "isl (parseBody env0 (req0\<lparr>json := Inr (JObj [(''message'', JObj [])])\<rparr>))"
    by (simp add: parseBody_def env0_def req0_def getProp_def nullish_def)
  show ?thesis
    using m malformed_body_bad_request[OF m, of db0] by simp
qed

section \<open>The message ceiling\<close>

text \<open>A caller whose count of messages is above the ceiling of the tier is turned away
  before anything is written or any model is invoked.\<close>

lemma rate_limit_above_ceiling:
  assumes "parseBody E req = Inr body"
    and "auth E = Inr (Some u)"
    and "getMessageCountByUserId E = Inr messageCount"
    and "entitlementsByUserType E (user_type u) = Some maxMessagesPerDay"
    and "messageCount > maxMessagesPerDay"
  shows "POST E req d = (Some (ChatSDKResponse ''rate_limit:chat''), \<lparr>store = d, trace = []\<rparr>)"
  using assms by (simp add: POST_def POST_try_def quotaGuard_def)

text \<open>
  Claim C1 at a caller exactly on the ceiling: a regular user with a ceiling of 100 messages
  who has sent 100 messages in the last 24 hours. The comparison is strict, so the handler
  does not answer with the rate-limit error: it creates the chat, saves the message,
  registers the stream and invokes the model.
\<close>

theorem message_ceiling_reached_not_limited:
  "entitlementsByUserType (env0\<lparr>getMessageCountByUserId := Inr 100\<rparr>) ''regular'' = Some 100 \<and>
   POST (env0\<lparr>getMessageCountByUserId := Inr 100\<rparr>) req0 db0 =
     (Some (StreamResponse stream0 False),
      \<lparr>store =
         \<lparr>chats = [\<lparr>chat_id = ''chat-1'', userId = ''u-1'', title = ''Greeting'',
                    visibility = ''private''\<rparr>],
          messages = [\<lparr>chatId = ''chat-1'', dbm_id = ''m-1'', dbm_role = ''user'',
                       dbm_parts = [TextPart ''hello'']\<rparr>],
          streams = [(''stream-1'', ''chat-1'')],
          usage_log = []\<rparr>,
       trace =
         [GenerateTitle \<lparr>msg_id = ''m-1'', role = ''user'', parts = [TextPart ''hello'']\<rparr>,
          SaveChat \<lparr>chat_id = ''chat-1'', userId = ''u-1'', title = ''Greeting'',
                    visibility = ''private''\<rparr>,
          SaveMessages [\<lparr>chatId = ''chat-1'', dbm_id = ''m-1'', dbm_role = ''user'',
                          dbm_parts = [TextPart ''hello'']\<rparr>],
          CreateStreamId ''stream-1'' ''chat-1'',
          StreamText
            \<lparr>model = ''chat-model-reasoning'',
             system = ''You are a friendly assistant.'',
             cfg_messages = [\<lparr>m_role = ''user'', content = Blocks [TextContent ''hello'']\<rparr>],
             stopWhen = 5,
             experimental_activeTools = [],
             tools = [''getWeather'', ''createDocument'', ''updateDocument'',
                      ''requestSuggestions'', ''webSearch'']\<rparr>]\<rparr>)"
  by (simp add: handler_defs example_defs)

section \<open>Errors before the stream opens\<close>

text \<open>The last \<^verbatim>\<open>catch\<close> answers a \<^verbatim>\<open>ChatSDKError\<close> with its response, and any other
  exception with nothing.\<close>

lemma POST_catches_ChatSDKError:
  assumes "parseBody E req = Inr body"
    and "fst (POST_try E req body \<lparr>store = d, trace = []\<rparr>) = Inl (ChatSDKError code)"
  shows "fst (POST E req d) = Some (ChatSDKResponse code)"
  using assms by (cases "POST_try E req body \<lparr>store = d, trace = []\<rparr>") (simp add: POST_def)

lemma POST_drops_other_errors:
  assumes "parseBody E req = Inr body"
    and "fst (POST_try E req body \<lparr>store = d, trace = []\<rparr>) = Inl e"
    and "\<forall>code. e \<noteq> ChatSDKError code"
  shows "fst (POST E req d) = None"
  using assms
  by (cases "POST_try E req body \<lparr>store = d, trace = []\<rparr>"; cases e) (simp_all add: POST_def)

text \<open>
  Claim C3 at a request for a new chat whose title generation throws an error that is not a
  \<^verbatim>\<open>ChatSDKError\<close>: the body is valid, the caller is signed in and under both ceilings, and
  the handler returns no response at all.
\<close>

theorem unexpected_error_returns_nothing:
  "POST (env0\<lparr>generateTitleFromUserMessage := Inl (Error ''provider unavailable'')\<rparr>) req0 db0 =
     (None,
      \<lparr>store = db0,
       trace = [GenerateTitle \<lparr>msg_id = ''m-1'', role = ''user'',
                                parts = [TextPart ''hello'']\<rparr>]\<rparr>)"
  by (simp add: handler_defs example_defs)

section \<open>The order of persistence and model invocation\<close>

lemma finishTurn_trace:
  "filter (\<lambda>e. isSaveMessages e \<or> isStreamText e) (trace (snd (finishTurn E s msgs outcome w))) =
   filter (\<lambda>e. isSaveMessages e \<or> isStreamText e) (trace w) @ [SaveMessages (finishedRows s msgs)]"
  by (simp add: finishTurn_def onFinish_def onConsumed_def dbWrite_def Let_def emit_def
        effect_kinds
      split: option.splits promise_outcome.splits prod.splits)

lemma finishTurn_messages:
  "messages (store (snd (finishTurn E s msgs outcome w))) =
     messages (store w) @ (if dbError E SaveMessagesCall = None then finishedRows s msgs else [])"
  by (simp add: finishTurn_def onFinish_def onConsumed_def dbWrite_def Let_def emit_def
        saveMessages_def saveUsageLog_def
      split: option.splits promise_outcome.splits prod.splits)

text \<open>
  Claim C2: for every POST that invokes the model with \<^verbatim>\<open>streamText\<close>, whether the handler
  then returns the stream or fails to open it, the calls that save messages or invoke the
  model are, in this order, the save of one row for the user's message (the chat id of the
  request, the id and the parts of its message, the role \<^verbatim>\<open>user\<close>) and the invocation; that
  row is in the store when the handler returns, after the rows that were there. A stream
  that is returned belongs to the chat of the request. Whatever the model and the store do
  afterwards, the messages of the finished stream are saved by one further call, as one
  batch holding a row for each of them in order, after the invocation; the store then holds
  the earlier rows, the user's row and, when the store accepts it, the batch. (The title of
  a new chat is generated earlier, before any message is saved; that call is not the
  invocation meant here.)
\<close>

theorem user_message_saved_before_model:
  assumes "StreamText cfg \<in> set (trace (snd (POST E req d)))"
  shows "\<exists>body.
      parseBody E req = Inr body \<and>
      filter (\<lambda>e. isSaveMessages e \<or> isStreamText e) (trace (snd (POST E req d))) =
        [SaveMessages [\<lparr>chatId = body_id body, dbm_id = msg_id (message body),
                         dbm_role = ''user'', dbm_parts = parts (message body)\<rparr>],
         StreamText cfg] \<and>
      messages (store (snd (POST E req d))) =
        messages d @ [\<lparr>chatId = body_id body, dbm_id = msg_id (message body),
                        dbm_role = ''user'', dbm_parts = parts (message body)\<rparr>] \<and>
      (\<forall>s resumable. fst (POST E req d) = Some (StreamResponse s resumable) \<longrightarrow>
         stream_chatId s = body_id body) \<and>
      (\<forall>E' s msgs outcome.
         filter (\<lambda>e. isSaveMessages e \<or> isStreamText e)
           (trace (snd (finishTurn E' s msgs outcome (snd (POST E req d))))) =
           [SaveMessages [\<lparr>chatId = body_id body, dbm_id = msg_id (message body),
                            dbm_role = ''user'', dbm_parts = parts (message body)\<rparr>],
            StreamText cfg,
            SaveMessages (map (\<lambda>m. \<lparr>chatId = stream_chatId s, dbm_id = msg_id m,
                                       dbm_role = role m, dbm_parts = parts m\<rparr>) msgs)] \<and>
         messages (store (snd (finishTurn E' s msgs outcome (snd (POST E req d))))) =
           messages d @
           [\<lparr>chatId = body_id body, dbm_id = msg_id (message body),
             dbm_role = ''user'', dbm_parts = parts (message body)\<rparr>] @
           (if dbError E' SaveMessagesCall = None
            then map (\<lambda>m. \<lparr>chatId = stream_chatId s, dbm_id = msg_id m,
                             dbm_role = role m, dbm_parts = parts m\<rparr>) msgs
            else []))"
proof -
  from POST_invoked[OF assms] obtain body where
    b: "parseBody E req = Inr body"
       "filter (\<lambda>e. isSaveMessages e \<or> isStreamText e) (trace (snd (POST E req d))) =
             [SaveMessages [userRow body], StreamText cfg]"
       "messages (store (snd (POST E req d))) = messages d @ [userRow body]"
       "\<forall>s b. fst (POST E req d) = Some (StreamResponse s b) \<longrightarrow>
              stream_chatId s = body_id body"
    by blast
  have row: "userRow body = \<lparr>chatId = body_id body, dbm_id = msg_id (message body),
                        dbm_role = ''user'', dbm_parts = parts (message body)\<rparr>"
    by (simp add: userRow_def)
  have rows: "finishedRows s msgs =
      map (\<lambda>m. \<lparr>chatId = stream_chatId s, dbm_id = msg_id m,
                  dbm_role = role m, dbm_parts = parts m\<rparr>) msgs" for s msgs
    by (simp add: finishedRows_def)
  have fin: "\<forall>E' s msgs outcome.
         filter (\<lambda>e. isSaveMessages e \<or> isStreamText e)
           (trace (snd (finishTurn E' s msgs outcome (snd (POST E req d))))) =
           [SaveMessages [userRow body], StreamText cfg, SaveMessages (finishedRows s msgs)] \<and>
         messages (store (snd (finishTurn E' s msgs outcome (snd (POST E req d))))) =
           messages d @ [userRow body] @
           (if dbError E' SaveMessagesCall = None then finishedRows s msgs else [])"
    using b(2,3) by (simp add: finishTurn_trace finishTurn_messages)
  show ?thesis
    using b(1) b(2) b(3) b(4) fin unfolding row rows by blast
qed

theorem user_message_saved_before_model_witness:
  "StreamText
     \<lparr>model = ''chat-model-reasoning'',
      system = ''You are a friendly assistant.'',
      cfg_messages = [\<lparr>m_role = ''user'', content = Blocks [TextContent ''hello'']\<rparr>],
      stopWhen = 5,
      experimental_activeTools = [],
      tools = [''getWeather'', ''createDocument'', ''updateDocument'',
               ''requestSuggestions'', ''webSearch'']\<rparr>
     \<in> set (trace (snd (POST (env0\<lparr>streamTextError := Some (Error ''model unavailable'')\<rparr>)
                            req0 db0))) \<and>
   messages (store (snd (POST (env0\<lparr>streamTextError := Some (Error ''model unavailable'')\<rparr>)
      req0 db0))) =
     [\<lparr>chatId = ''chat-1'', dbm_id = ''m-1'', dbm_role = ''user'',
       dbm_parts = [TextPart ''hello'']\<rparr>] \<and>
   messages (store (snd
     (finishTurn (env0\<lparr>dbError := (\<lambda>c. Some (ChatSDKError ''bad_request:database''))\<rparr>)
        (stream0\<lparr>consumePromise := False\<rparr>)
        [\<lparr>msg_id = ''a-1'', role = ''assistant'', parts = [TextPart ''hi'']\<rparr>]
        (Rejected (Error ''model unavailable''))
        (snd (POST (env0\<lparr>streamTextError := Some (Error ''model unavailable'')\<rparr>)
           req0 db0))))) =
     [\<lparr>chatId = ''chat-1'', dbm_id = ''m-1'', dbm_role = ''user'',
       dbm_parts = [TextPart ''hello'']\<rparr>] \<and>
   messages (store (snd
     (finishTurn env0 (stream0\<lparr>consumePromise := False\<rparr>)
        [\<lparr>msg_id = ''a-1'', role = ''assistant'', parts = [TextPart ''hi'']\<rparr>]
        (Rejected (Error ''model unavailable''))
        (snd (POST (env0\<lparr>streamTextError := Some (Error ''model unavailable'')\<rparr>)
           req0 db0))))) =
     [\<lparr>chatId = ''chat-1'', dbm_id = ''m-1'', dbm_role = ''user'',
       dbm_parts = [TextPart ''hello'']\<rparr>,
      \<lparr>chatId = ''chat-1'', dbm_id = ''a-1'', dbm_role = ''assistant'',
       dbm_parts = [TextPart ''hi'']\<rparr>] \<and>
   fst (POST (env0\<lparr>streamContext := Some (Some (Error ''redis unavailable''))\<rparr>) req0 db0) =
     None \<and>
   StreamText
     \<lparr>model = ''chat-model-reasoning'',
      system = ''You are a friendly assistant.'',
      cfg_messages = [\<lparr>m_role = ''user'', content = Blocks [TextContent ''hello'']\<rparr>],
      stopWhen = 5,
      experimental_activeTools = [],
      tools = [''getWeather'', ''createDocument'', ''updateDocument'',
               ''requestSuggestions'', ''webSearch'']\<rparr>
     \<in> set (trace (snd (POST
            (env0\<lparr>streamContext := Some (Some (Error ''redis unavailable''))\<rparr>) req0 db0))) \<and>
   messages (store (snd (POST
      (env0\<lparr>streamContext := Some (Some (Error ''redis unavailable''))\<rparr>) req0 db0))) =
     [\<lparr>chatId = ''chat-1'', dbm_id = ''m-1'', dbm_role = ''user'',
       dbm_parts = [TextPart ''hello'']\<rparr>]"
proof -
  let ?cfg = "\<lparr>model = ''chat-model-reasoning'',
      system = ''You are a friendly assistant.'',
      cfg_messages = [\<lparr>m_role = ''user'', content = Blocks [TextContent ''hello'']\<rparr>],
      stopWhen = 5,
      experimental_activeTools = [],
      tools = [''getWeather'', ''createDocument'', ''updateDocument'',
               ''requestSuggestions'', ''webSearch'']\<rparr>"
  let ?Ea = "env0\<lparr>streamTextError := Some (Error ''model unavailable'')\<rparr>"
  let ?Eb = "env0\<lparr>dbError := (\<lambda>c. Some (ChatSDKError ''bad_request:database''))\<rparr>"
  let ?Ec = "env0\<lparr>streamContext := Some (Some (Error ''redis unavailable''))\<rparr>"
  let ?s = "stream0\<lparr>consumePromise := False\<rparr>"
  let ?msgs = "[\<lparr>msg_id = ''a-1'', role = ''assistant'', parts = [TextPart ''hi'']\<rparr>]"
  let ?out = "Rejected (Error ''model unavailable'')"
  let ?row = "\<lparr>chatId = ''chat-1'', dbm_id = ''m-1'', dbm_role = ''user'',
       dbm_parts = [TextPart ''hello'']\<rparr>"
  have ma: "StreamText ?cfg \<in> set (trace (snd (POST ?Ea req0 db0)))"
    by (simp add: handler_defs example_defs)
  have ba: "parseBody ?Ea req0 = Inr body0"
    by (simp add: parseBody_def example_defs)
  have mc: "StreamText ?cfg \<in> set (trace (snd (POST ?Ec req0 db0)))"
    by (simp add: handler_defs example_defs)
  have bc: "parseBody ?Ec req0 = Inr body0"
    by (simp add: parseBody_def example_defs)
  have rc: "fst (POST ?Ec req0 db0) = None"
    by (simp add: handler_defs example_defs)
  have e: "dbError ?Eb SaveMessagesCall \<noteq> None" "dbError env0 SaveMessagesCall = None"
    by (simp_all add: env0_def)
  have d: "messages db0 = []"
    by (simp add: db0_def)
  have s: "stream_chatId ?s = ''chat-1''"
    by (simp add: stream0_def)
  have b0: "body_id body0 = ''chat-1''" "msg_id (message body0) = ''m-1''"
      "parts (message body0) = [TextPart ''hello'']"
    by (simp_all add: body0_def)
  from user_message_saved_before_model[OF ma] obtain body where
    1: "parseBody ?Ea req0 = Inr body"
    and 2: "messages (store (snd (POST ?Ea req0 db0))) =
        messages db0 @ [\<lparr>chatId = body_id body, dbm_id = msg_id (message body),
                        dbm_role = ''user'', dbm_parts = parts (message body)\<rparr>]"
    and 3: "\<forall>E' s msgs outcome.
         messages (store (snd (finishTurn E' s msgs outcome (snd (POST ?Ea req0 db0))))) =
           messages db0 @
           [\<lparr>chatId = body_id body, dbm_id = msg_id (message body),
             dbm_role = ''user'', dbm_parts = parts (message body)\<rparr>] @
           (if dbError E' SaveMessagesCall = None
            then map (\<lambda>m. \<lparr>chatId = stream_chatId s, dbm_id = msg_id m,
                             dbm_role = role m, dbm_parts = parts m\<rparr>) msgs
            else [])"
    by blast
  have body: "body = body0"
    using 1 ba by simp
  have a1: "messages (store (snd (POST ?Ea req0 db0))) = [?row]"
    using 2 unfolding body d b0 by simp
  have a2: "messages (store (snd (finishTurn ?Eb ?s ?msgs ?out (snd (POST ?Ea req0 db0))))) =
      [?row]"
    using 3[rule_format, of ?Eb ?s ?msgs ?out] e(1) unfolding body d b0 by simp
  have a3: "messages (store (snd (finishTurn env0 ?s ?msgs ?out (snd (POST ?Ea req0 db0))))) =
      [?row, \<lparr>chatId = ''chat-1'', dbm_id = ''a-1'', dbm_role = ''assistant'',
              dbm_parts = [TextPart ''hi'']\<rparr>]"
    using 3[rule_format, of env0 ?s ?msgs ?out] e(2) s unfolding body d b0 by simp
  from user_message_saved_before_model[OF mc] obtain body' where
    4: "parseBody ?Ec req0 = Inr body'"
    and 5: "messages (store (snd (POST ?Ec req0 db0))) =
        messages db0 @ [\<lparr>chatId = body_id body', dbm_id = msg_id (message body'),
                        dbm_role = ''user'', dbm_parts = parts (message body')\<rparr>]"
    by blast
  have body': "body' = body0"
    using 4 bc by simp
  have c1: "messages (store (snd (POST ?Ec req0 db0))) = [?row]"
    using 5 unfolding body' d b0 by simp
  show ?thesis
    using ma a1 a2 a3 rc mc c1 by simp
qed

section \<open>The tools of the model invocation\<close>

text \<open>
  Claim C5: every invocation of the model made by the handler is for the model the request
  selects, with a limit of 5 steps. For \<^verbatim>\<open>chat-model-reasoning\<close> the set of active tools is
  empty, whatever the messages are, so that the model is offered no tool; for any other
  model the active tools are the four named in the handler.
\<close>

theorem reasoning_model_has_no_tools:
  assumes "StreamText cfg \<in> set (trace (snd (POST E req d)))"
  shows "\<exists>body. parseBody E req = Inr body \<and>
           model cfg = selectedChatModel body \<and>
           stopWhen cfg = 5 \<and>
           (selectedChatModel body = ''chat-model-reasoning'' \<longrightarrow>
              experimental_activeTools cfg = []) \<and>
           (selectedChatModel body \<noteq> ''chat-model-reasoning'' \<longrightarrow>
              experimental_activeTools cfg =
                [''getWeather'', ''updateDocument'', ''requestSuggestions'', ''webSearch''])"
proof -
  from POST_model[OF assms] obtain body ms where
    "parseBody E req = Inr body"
    "cfg = streamTextArgs E (selectedChatModel body) (geolocation req) ms"
    by blast
  then show ?thesis
    by (auto simp: streamTextArgs_def)
qed

theorem reasoning_model_has_no_tools_witness:
  "StreamText
     \<lparr>model = ''chat-model-reasoning'',
      system = ''You are a friendly assistant.'',
      cfg_messages = [\<lparr>m_role = ''user'', content = Blocks [TextContent ''hello'']\<rparr>],
      stopWhen = 5,
      experimental_activeTools = [],
      tools = [''getWeather'', ''createDocument'', ''updateDocument'',
               ''requestSuggestions'', ''webSearch'']\<rparr>
     \<in> set (trace (snd (POST env0 req0 db0))) \<and>
   parseBody env0 req0 = Inr body0 \<and>
   selectedChatModel body0 = ''chat-model-reasoning'' \<and>
   StreamText
     \<lparr>model = ''chat-model'',
      system = ''You are a friendly assistant.'',
      cfg_messages = [\<lparr>m_role = ''user'', content = Blocks [TextContent ''hello'']\<rparr>],
      stopWhen = 5,
      experimental_activeTools =
        [''getWeather'', ''updateDocument'', ''requestSuggestions'', ''webSearch''],
      tools = [''getWeather'', ''createDocument'', ''updateDocument'',
               ''requestSuggestions'', ''webSearch'']\<rparr>
     \<in> set (trace (snd (POST
           (env0\<lparr>postRequestBodySchema :=
              (\<lambda>j. Inr (body0\<lparr>selectedChatModel := ''chat-model''\<rparr>))\<rparr>) req0 db0))) \<and>
   parseBody (env0\<lparr>postRequestBodySchema :=
       (\<lambda>j. Inr (body0\<lparr>selectedChatModel := ''chat-model''\<rparr>))\<rparr>) req0 =
     Inr (body0\<lparr>selectedChatModel := ''chat-model''\<rparr>)"
proof -
  let ?tools = "[''getWeather'', ''createDocument'', ''updateDocument'',
               ''requestSuggestions'', ''webSearch'']"
  let ?msgs = "[\<lparr>m_role = ''user'', content = Blocks [TextContent ''hello'']\<rparr>]"
  let ?cfgR = "\<lparr>model = ''chat-model-reasoning'',
      system = ''You are a friendly assistant.'', cfg_messages = ?msgs, stopWhen = 5,
      experimental_activeTools = [], tools = ?tools\<rparr>"
  let ?cfgC = "\<lparr>model = ''chat-model'',
      system = ''You are a friendly assistant.'', cfg_messages = ?msgs, stopWhen = 5,
      experimental_activeTools =
        [''getWeather'', ''updateDocument'', ''requestSuggestions'', ''webSearch''],
      tools = ?tools\<rparr>"
  let ?E = "env0\<lparr>postRequestBodySchema :=
       (\<lambda>j. Inr (body0\<lparr>selectedChatModel := ''chat-model''\<rparr>))\<rparr>"
  have m: "StreamText ?cfgR \<in> set (trace (snd (POST env0 req0 db0)))"
    by (simp add: handler_defs example_defs)
  have b: "parseBody env0 req0 = Inr body0"
    by (simp add: parseBody_def example_defs)
  from reasoning_model_has_no_tools[OF m] obtain body where
    1: "parseBody env0 req0 = Inr body" and 2: "model ?cfgR = selectedChatModel body"
    by blast
  have "body = body0"
    using 1 b by simp
  with 2 have r: "selectedChatModel body0 = ''chat-model-reasoning''"
    by simp
  have m': "StreamText ?cfgC \<in> set (trace (snd (POST ?E req0 db0)))"
    by (simp add: handler_defs example_defs)
  have b': "parseBody ?E req0 = Inr (body0\<lparr>selectedChatModel := ''chat-model''\<rparr>)"
    by (simp add: parseBody_def example_defs)
  from reasoning_model_has_no_tools[OF m'] obtain body' where
    3: "parseBody ?E req0 = Inr body'" and 4: "stopWhen ?cfgC = 5"
    by blast
  show ?thesis
    using m b r m' b' by simp
qed

section \<open>The usage record\<close>











section \<open>Deleting a chat that does not exist\<close>

text \<open>
  Claim C9: for a DELETE request of a signed-in caller whose id refers to no chat, the
  handler reads the owner of the missing record and throws; the exception leaves the
  handler, no response is returned, and nothing is written.
\<close>

theorem delete_missing_chat_throws:
  assumes "search_id req = Some i" and "i \<noteq> []"
    and "auth E = Inr (Some u)"
    and "dbError E GetChatById = None"
    and "getChatById d i = None"
  shows "DELETE E req d =
           (Inl (TypeError ''Cannot read properties of undefined''), \<lparr>store = d, trace = []\<rparr>)"
  using assms by (simp add: DELETE_def)

theorem delete_missing_chat_throws_witness:
  "search_id req0 = Some ''chat-404'' \<and> auth env0 = Inr (Some \<lparr>user_id = ''u-1'', user_type = ''regular''\<rparr>) \<and>
   dbError env0 GetChatById = None \<and> getChatById db0 ''chat-404'' = None \<and>
   DELETE env0 req0 db0 =
     (Inl (TypeError ''Cannot read properties of undefined''), \<lparr>store = db0, trace = []\<rparr>)"
proof -
  have a: "search_id req0 = Some ''chat-404''" by (simp add: req0_def)
  have b: "''chat-404'' \<noteq> []" by simp
  have c: "auth env0 = Inr (Some \<lparr>user_id = ''u-1'', user_type = ''regular''\<rparr>)" by (simp add: env0_def)
  have d: "dbError env0 GetChatById = None" by (simp add: env0_def)
  have e: "getChatById db0 ''chat-404'' = None" by (simp add: getChatById_def db0_def)
  show ?thesis
    using a c d e delete_missing_chat_throws[OF a b c d e] by simp
qed

end
